theory Spec2Isabelle
  imports Main "HOL-Library.Sublist"
begin

section \<open>The classes of the module\<close>

text \<open>
  The module \<^verbatim>\<open>AbstractFactory/main.py\<close> declares nine classes: three abstract base
  classes (deriving from \<^verbatim>\<open>ABC\<close>) and two concrete subclasses of each. No class has
  an \<^verbatim>\<open>__init__\<close> or assigns an attribute, so an object is determined by its class
  and its identity.
\<close>

datatype class_name =
    GUIToolkitFactory | WindowsGUIToolkitFactory | MacOSGUIToolkitFactory
  | Button | WindowsButton | MacOSButton
  | Checkbox | WindowsCheckbox | MacOSCheckbox

text \<open>
  The base named in each class statement; \<open>None\<close> stands for \<^verbatim>\<open>ABC\<close>, which
  contributes no method.
\<close>

fun base :: "class_name \<Rightarrow> class_name option" where
  "base GUIToolkitFactory = None"
| "base WindowsGUIToolkitFactory = Some GUIToolkitFactory"
| "base MacOSGUIToolkitFactory = Some GUIToolkitFactory"
| "base Button = None"
| "base WindowsButton = Some Button"
| "base MacOSButton = Some Button"
| "base Checkbox = None"
| "base WindowsCheckbox = Some Checkbox"
| "base MacOSCheckbox = Some Checkbox"

text \<open>
  The methods defined in each class body, in source order, each with the flag
  \<^verbatim>\<open>__isabstractmethod__\<close>: \<open>True\<close> exactly for the methods decorated with
  \<^verbatim>\<open>@abstractmethod\<close>.
\<close>

fun namespace :: "class_name \<Rightarrow> (string \<times> bool) list" where
  "namespace GUIToolkitFactory = [(''create_button'', True), (''create_checkbox'', True)]"
| "namespace WindowsGUIToolkitFactory = [(''create_button'', False), (''create_checkbox'', False)]"
| "namespace MacOSGUIToolkitFactory = [(''create_button'', False), (''create_checkbox'', False)]"
| "namespace Button = [(''click'', True)]"
| "namespace WindowsButton = [(''click'', False)]"
| "namespace MacOSButton = [(''click'', False)]"
| "namespace Checkbox = [(''check'', True), (''toggle_with_button'', True)]"
| "namespace WindowsCheckbox = [(''check'', False), (''toggle_with_button'', False)]"
| "namespace MacOSCheckbox = [(''check'', False), (''toggle_with_button'', False)]"

text \<open>The depth of a class below \<^verbatim>\<open>ABC\<close>; it bounds the walk along \<open>base\<close>.\<close>

definition depth :: "class_name \<Rightarrow> nat" where
  "depth C = (case base C of None \<Rightarrow> 0 | Some B \<Rightarrow> Suc 0)"

text \<open>
  The method resolution order of a class (single inheritance: the class, then the
  order of its base), without \<^verbatim>\<open>ABC\<close> and \<^verbatim>\<open>object\<close>.
\<close>

function mro :: "class_name \<Rightarrow> class_name list" where
  "mro C = C # (case base C of None \<Rightarrow> [] | Some B \<Rightarrow> mro B)"
  by pat_completeness auto
termination
  by (relation "measure depth") (auto simp: depth_def elim!: base.elims)

declare mro.simps [simp del]

text \<open>
  \<^verbatim>\<open>getattr(cls, name).__isabstractmethod__\<close>: the flag of the first definition of
  \<open>name\<close> along the resolution order, \<open>None\<close> when no class of the order defines it.
\<close>

fun lookup_abstract :: "class_name list \<Rightarrow> string \<Rightarrow> bool option" where
  "lookup_abstract [] n = None"
| "lookup_abstract (D # Ds) n =
     (case map_of (namespace D) n of Some a \<Rightarrow> Some a | None \<Rightarrow> lookup_abstract Ds n)"

text \<open>
  \<^verbatim>\<open>cls.__abstractmethods__\<close> as \<^verbatim>\<open>ABCMeta\<close> computes it when the class statement
  runs: the abstract methods of the class body, and those abstract methods of the base
  that still resolve to an abstract method in the class. Python holds a frozenset; the
  list here has no duplicates.
\<close>

function abstractmethods :: "class_name \<Rightarrow> string list" where
  "abstractmethods C =
     remdups (map fst (filter snd (namespace C)) @
       (case base C of
          None \<Rightarrow> []
        | Some B \<Rightarrow> filter (\<lambda>n. lookup_abstract (mro C) n = Some True) (abstractmethods B)))"
  by pat_completeness auto
termination
  by (relation "measure depth") (auto simp: depth_def elim!: base.elims)

declare abstractmethods.simps [simp del]

section \<open>Values, errors and the interpreter state\<close>

type_synonym ref = nat

text \<open>A value that is \<^verbatim>\<open>None\<close> or a value of the given kind.\<close>

datatype 'a or_none = PyNone | Val 'a

text \<open>
  A call of a function or method of the module: the name called and the arguments, the
  receiver first for a method. The state keeps the calls made, in order, so that a
  property can say how often a method is called; no operation reads them.
\<close>

datatype event = Call string "ref or_none list"

text \<open>
  The state a run of the module can observe or change: the objects created so far (the
  object with reference \<open>r\<close> is the \<open>r\<close>-th entry, given by its class), the text
  written to standard output, and the calls made so far.
\<close>

record state =
  heap :: "class_name list"
  stdout :: string
  calls :: "event list"

definition init_state :: state where
  "init_state = \<lparr>heap = [], stdout = [], calls = []\<rparr>"

text \<open>
  The exceptions the module can raise: \<^verbatim>\<open>TypeError\<close> on instantiating a class with
  abstract methods (carrying the class and the names of the methods, from which Python
  builds the message), and \<^verbatim>\<open>AttributeError\<close> on calling a method the receiver does
  not have (the receiver's class, \<open>None\<close> for \<^verbatim>\<open>NoneType\<close>, and the name).
  \<open>NoSuchObject\<close> is no Python exception: it marks a reference to no object, which no
  operation below ever returns.
\<close>

datatype py_error =
    TypeError class_name "string list"
  | AttributeError "class_name option" string
  | NoSuchObject ref

type_synonym 'a py = "state \<Rightarrow> (py_error + 'a) \<times> state"

definition py_return :: "'a \<Rightarrow> 'a py" where
  "py_return x s = (Inr x, s)"

definition py_bind :: "'a py \<Rightarrow> ('a \<Rightarrow> 'b py) \<Rightarrow> 'b py" where
  "py_bind m k s = (case m s of (Inl e, s') \<Rightarrow> (Inl e, s') | (Inr x, s') \<Rightarrow> k x s')"

definition newline :: char where
  "newline = CHR 0x0A"

text \<open>\<^verbatim>\<open>print(x)\<close> writes the text and the line terminator.\<close>

definition print :: "string \<Rightarrow> unit py" where
  "print x s = (Inr (), s\<lparr>stdout := stdout s @ x @ [newline]\<rparr>)"

definition called :: "string \<Rightarrow> ref or_none list \<Rightarrow> unit py" where
  "called n args s = (Inr (), s\<lparr>calls := calls s @ [Call n args]\<rparr>)"

text \<open>
  \<^verbatim>\<open>C()\<close>: \<^verbatim>\<open>object.__new__\<close> refuses a class whose \<^verbatim>\<open>__abstractmethods__\<close> is
  not empty; otherwise a new object of the class is created.
\<close>

definition instantiate :: "class_name \<Rightarrow> ref py" where
  "instantiate C s =
     (if abstractmethods C \<noteq> [] then (Inl (TypeError C (abstractmethods C)), s)
      else (Inr (length (heap s)), s\<lparr>heap := heap s @ [C]\<rparr>))"

definition class_of :: "state \<Rightarrow> ref \<Rightarrow> class_name option" where
  "class_of s r = (if r < length (heap s) then Some (heap s ! r) else None)"

text \<open>
  Attribute lookup for a method call \<^verbatim>\<open>v.n(...)\<close>: the first class of the receiver's
  resolution order whose body defines \<open>n\<close> gives the function; \<open>attr\<close> is the table of
  the definitions of \<open>n\<close> by class.
\<close>

fun lookup :: "(class_name \<Rightarrow> 'm option) \<Rightarrow> class_name list \<Rightarrow> 'm option" where
  "lookup attr [] = None"
| "lookup attr (D # Ds) = (case attr D of Some m \<Rightarrow> Some m | None \<Rightarrow> lookup attr Ds)"

definition getattr :: "string \<Rightarrow> (class_name \<Rightarrow> 'm option) \<Rightarrow> ref or_none \<Rightarrow> (ref \<times> 'm) py" where
  "getattr n attr v s =
     (case v of
        PyNone \<Rightarrow> (Inl (AttributeError None n), s)
      | Val r \<Rightarrow>
          (case class_of s r of
             None \<Rightarrow> (Inl (NoSuchObject r), s)
           | Some C \<Rightarrow>
               (case lookup attr (mro C) of
                  None \<Rightarrow> (Inl (AttributeError (Some C) n), s)
                | Some m \<Rightarrow> (Inr (r, m), s))))"

text \<open>
  A replacement field \<^verbatim>\<open>{x}\<close> of an f-string, for a value that is a string or
  \<^verbatim>\<open>None\<close>.
\<close>

fun format_value :: "string or_none \<Rightarrow> string" where
  "format_value PyNone = ''None''"
| "format_value (Val x) = x"

section \<open>Buttons\<close>

definition Button_click :: "ref \<Rightarrow> string or_none py" where
  "Button_click self = py_return PyNone"

definition WindowsButton_click :: "ref \<Rightarrow> string or_none py" where
  "WindowsButton_click self = py_return (Val ''You have clicked a Windows button.'')"

definition MacOSButton_click :: "ref \<Rightarrow> string or_none py" where
  "MacOSButton_click self = py_return (Val ''You have clicked a MacOS button.'')"

fun click_attr :: "class_name \<Rightarrow> (ref \<Rightarrow> string or_none py) option" where
  "click_attr Button = Some Button_click"
| "click_attr WindowsButton = Some WindowsButton_click"
| "click_attr MacOSButton = Some MacOSButton_click"
| "click_attr _ = None"

text \<open>The call \<^verbatim>\<open>v.click()\<close>.\<close>

definition click :: "ref or_none \<Rightarrow> string or_none py" where
  "click v =
     py_bind (getattr ''click'' click_attr v) (\<lambda>(self, m).
     py_bind (called ''click'' [v]) (\<lambda>_. m self))"

section \<open>Checkboxes\<close>

definition Checkbox_check :: "ref \<Rightarrow> string or_none py" where
  "Checkbox_check self = py_return PyNone"

definition Checkbox_toggle_with_button :: "ref \<Rightarrow> ref or_none \<Rightarrow> string or_none py" where
  "Checkbox_toggle_with_button self button = py_return PyNone"

definition WindowsCheckbox_check :: "ref \<Rightarrow> string or_none py" where
  "WindowsCheckbox_check self = py_return (Val ''Windows checkbox is checked.'')"

definition WindowsCheckbox_toggle_with_button :: "ref \<Rightarrow> ref or_none \<Rightarrow> string or_none py" where
  "WindowsCheckbox_toggle_with_button self button =
     py_bind (click button) (\<lambda>result.
     py_return (Val (''Windows checkbox toggled with ('' @ format_value result @ '')'')))"

definition MacOSCheckbox_check :: "ref \<Rightarrow> string or_none py" where
  "MacOSCheckbox_check self = py_return (Val ''MacOS checkbox is checked.'')"

definition MacOSCheckbox_toggle_with_button :: "ref \<Rightarrow> ref or_none \<Rightarrow> string or_none py" where
  "MacOSCheckbox_toggle_with_button self button =
     py_bind (click button) (\<lambda>result.
     py_return (Val (''MacOS checkbox toggled with ('' @ format_value result @ '')'')))"

fun check_attr :: "class_name \<Rightarrow> (ref \<Rightarrow> string or_none py) option" where
  "check_attr Checkbox = Some Checkbox_check"
| "check_attr WindowsCheckbox = Some WindowsCheckbox_check"
| "check_attr MacOSCheckbox = Some MacOSCheckbox_check"
| "check_attr _ = None"

fun toggle_with_button_attr ::
  "class_name \<Rightarrow> (ref \<Rightarrow> ref or_none \<Rightarrow> string or_none py) option" where
  "toggle_with_button_attr Checkbox = Some Checkbox_toggle_with_button"
| "toggle_with_button_attr WindowsCheckbox = Some WindowsCheckbox_toggle_with_button"
| "toggle_with_button_attr MacOSCheckbox = Some MacOSCheckbox_toggle_with_button"
| "toggle_with_button_attr _ = None"

text \<open>The calls \<^verbatim>\<open>v.check()\<close> and \<^verbatim>\<open>v.toggle_with_button(button)\<close>.\<close>

definition check :: "ref or_none \<Rightarrow> string or_none py" where
  "check v =
     py_bind (getattr ''check'' check_attr v) (\<lambda>(self, m).
     py_bind (called ''check'' [v]) (\<lambda>_. m self))"

definition toggle_with_button :: "ref or_none \<Rightarrow> ref or_none \<Rightarrow> string or_none py" where
  "toggle_with_button v button =
     py_bind (getattr ''toggle_with_button'' toggle_with_button_attr v) (\<lambda>(self, m).
     py_bind (called ''toggle_with_button'' [v, button]) (\<lambda>_. m self button))"

section \<open>Factories\<close>

definition GUIToolkitFactory_create_button :: "ref \<Rightarrow> ref or_none py" where
  "GUIToolkitFactory_create_button self = py_return PyNone"

definition GUIToolkitFactory_create_checkbox :: "ref \<Rightarrow> ref or_none py" where
  "GUIToolkitFactory_create_checkbox self = py_return PyNone"

definition WindowsGUIToolkitFactory_create_button :: "ref \<Rightarrow> ref or_none py" where
  "WindowsGUIToolkitFactory_create_button self =
     py_bind (instantiate WindowsButton) (\<lambda>r. py_return (Val r))"

definition WindowsGUIToolkitFactory_create_checkbox :: "ref \<Rightarrow> ref or_none py" where
  "WindowsGUIToolkitFactory_create_checkbox self =
     py_bind (instantiate WindowsCheckbox) (\<lambda>r. py_return (Val r))"

definition MacOSGUIToolkitFactory_create_button :: "ref \<Rightarrow> ref or_none py" where
  "MacOSGUIToolkitFactory_create_button self =
     py_bind (instantiate MacOSButton) (\<lambda>r. py_return (Val r))"

definition MacOSGUIToolkitFactory_create_checkbox :: "ref \<Rightarrow> ref or_none py" where
  "MacOSGUIToolkitFactory_create_checkbox self =
     py_bind (instantiate MacOSCheckbox) (\<lambda>r. py_return (Val r))"

fun create_button_attr :: "class_name \<Rightarrow> (ref \<Rightarrow> ref or_none py) option" where
  "create_button_attr GUIToolkitFactory = Some GUIToolkitFactory_create_button"
| "create_button_attr WindowsGUIToolkitFactory = Some WindowsGUIToolkitFactory_create_button"
| "create_button_attr MacOSGUIToolkitFactory = Some MacOSGUIToolkitFactory_create_button"
| "create_button_attr _ = None"

fun create_checkbox_attr :: "class_name \<Rightarrow> (ref \<Rightarrow> ref or_none py) option" where
  "create_checkbox_attr GUIToolkitFactory = Some GUIToolkitFactory_create_checkbox"
| "create_checkbox_attr WindowsGUIToolkitFactory = Some WindowsGUIToolkitFactory_create_checkbox"
| "create_checkbox_attr MacOSGUIToolkitFactory = Some MacOSGUIToolkitFactory_create_checkbox"
| "create_checkbox_attr _ = None"

text \<open>The calls \<^verbatim>\<open>v.create_button()\<close> and \<^verbatim>\<open>v.create_checkbox()\<close>.\<close>

definition create_button :: "ref or_none \<Rightarrow> ref or_none py" where
  "create_button v =
     py_bind (getattr ''create_button'' create_button_attr v) (\<lambda>(self, m).
     py_bind (called ''create_button'' [v]) (\<lambda>_. m self))"

definition create_checkbox :: "ref or_none \<Rightarrow> ref or_none py" where
  "create_checkbox v =
     py_bind (getattr ''create_checkbox'' create_checkbox_attr v) (\<lambda>(self, m).
     py_bind (called ''create_checkbox'' [v]) (\<lambda>_. m self))"

section \<open>The client and the entry point\<close>

definition client_code :: "ref or_none \<Rightarrow> unit py" where
  "client_code factory =
     py_bind (called ''client_code'' [factory]) (\<lambda>_.
     py_bind (create_button factory) (\<lambda>button.
     py_bind (create_checkbox factory) (\<lambda>checkbox.
     py_bind (check checkbox) (\<lambda>checked.
     py_bind (print (format_value checked)) (\<lambda>_.
     py_bind (toggle_with_button checkbox button) (\<lambda>toggled.
     print (format_value toggled)))))))"

text \<open>The statements under \<^verbatim>\<open>if __name__ == "__main__":\<close>.\<close>

definition main :: "unit py" where
  "main =
     py_bind (print ''Client: Testing client code with the Windows GUI toolkit:'') (\<lambda>_.
     py_bind (instantiate WindowsGUIToolkitFactory) (\<lambda>f.
     py_bind (client_code (Val f)) (\<lambda>_.
     py_bind (print [newline]) (\<lambda>_.
     py_bind (print ''Client: Testing the same client code with the MacOS GUI toolkit:'') (\<lambda>_.
     py_bind (instantiate MacOSGUIToolkitFactory) (\<lambda>g.
     client_code (Val g)))))))"

text \<open>
  Running the module with \<^verbatim>\<open>__name__\<close> set to \<open>name\<close>: the class and function
  definitions write nothing; the guarded block runs for \<^verbatim>\<open>__main__\<close> only.
\<close>

definition run_module :: "string \<Rightarrow> unit py" where
  "run_module name = (if name = ''__main__'' then main else py_return ())"

section \<open>Vocabulary of the properties\<close>

text \<open>
  The two platform variants. The source has no variant tag: the variant of a factory
  or product is which concrete class it is.
\<close>

datatype variant = Windows | MacOS

fun variant_name :: "variant \<Rightarrow> string" where
  "variant_name Windows = ''Windows''"
| "variant_name MacOS = ''MacOS''"

fun factory_class :: "variant \<Rightarrow> class_name" where
  "factory_class Windows = WindowsGUIToolkitFactory"
| "factory_class MacOS = MacOSGUIToolkitFactory"

fun button_class :: "variant \<Rightarrow> class_name" where
  "button_class Windows = WindowsButton"
| "button_class MacOS = MacOSButton"

fun checkbox_class :: "variant \<Rightarrow> class_name" where
  "checkbox_class Windows = WindowsCheckbox"
| "checkbox_class MacOS = MacOSCheckbox"

text \<open>The variant a concrete class belongs to; an abstract class belongs to none.\<close>

fun family :: "class_name \<Rightarrow> variant option" where
  "family WindowsGUIToolkitFactory = Some Windows"
| "family WindowsButton = Some Windows"
| "family WindowsCheckbox = Some Windows"
| "family MacOSGUIToolkitFactory = Some MacOS"
| "family MacOSButton = Some MacOS"
| "family MacOSCheckbox = Some MacOS"
| "family _ = None"

text \<open>\<^verbatim>\<open>isinstance(v, C)\<close> in state \<open>s\<close>.\<close>

definition isinstance :: "state \<Rightarrow> ref or_none \<Rightarrow> class_name \<Rightarrow> bool" where
  "isinstance s v C =
     (case v of PyNone \<Rightarrow> False
      | Val r \<Rightarrow> (case class_of s r of None \<Rightarrow> False | Some D \<Rightarrow> C \<in> set (mro D)))"

text \<open>
  Every object is of a class that can be instantiated. The initial state satisfies
  this, and every operation keeps it.
\<close>

definition concrete_heap :: "state \<Rightarrow> bool" where
  "concrete_heap s = list_all (\<lambda>C. abstractmethods C = []) (heap s)"

text \<open>
  The lines of a text, each ended by the line terminator (as \<^verbatim>\<open>str.splitlines\<close>
  gives them for a text with no other line boundary); \<open>cur\<close> is the line read so far.
\<close>

fun split_lines :: "string \<Rightarrow> string \<Rightarrow> string list" where
  "split_lines cur [] = (if cur = [] then [] else [cur])"
| "split_lines cur (c # cs) =
     (if c = newline then cur # split_lines [] cs else split_lines (cur @ [c]) cs)"

definition lines_of :: "string \<Rightarrow> string list" where
  "lines_of text = split_lines [] text"

text \<open>The text that running \<open>m\<close> from state \<open>s\<close> adds to standard output.\<close>

definition printed :: "'a py \<Rightarrow> state \<Rightarrow> string" where
  "printed m s = drop (length (stdout s)) (stdout (snd (m s)))"


text \<open>The variant of the object that \<open>m\<close> returns when run from state \<open>s\<close>.\<close>

definition product_family :: "ref or_none py \<Rightarrow> state \<Rightarrow> variant option" where
  "product_family m s =
     (case m s of
        (Inr (Val r), s') \<Rightarrow> (case class_of s' r of Some C \<Rightarrow> family C | None \<Rightarrow> None)
      | _ \<Rightarrow> None)"

text \<open>
  What the products of factory \<open>f\<close> return, run from state \<open>s\<close>: the click of its
  button, the check of its checkbox, and the toggle of its checkbox with button \<open>b\<close>.
\<close>

definition product_strings ::
  "ref or_none \<Rightarrow> ref or_none \<Rightarrow> state \<Rightarrow> (py_error + string or_none) list" where
  "product_strings f b s =
     [fst (py_bind (create_button f) click s),
      fst (py_bind (create_checkbox f) check s),
      fst (py_bind (create_checkbox f) (\<lambda>c. toggle_with_button c b) s)]"

text \<open>The state after \<open>n\<close> successive runs of \<open>m\<close> from state \<open>s\<close>.\<close>

definition after_calls :: "nat \<Rightarrow> 'a py \<Rightarrow> state \<Rightarrow> state" where
  "after_calls n m s = ((\<lambda>s'. snd (m s')) ^^ n) s"

text \<open>The calls of the client routine among the calls recorded in a state.\<close>

definition client_code_calls :: "state \<Rightarrow> event list" where
  "client_code_calls s = filter (\<lambda>e. case e of Call n args \<Rightarrow> n = ''client_code'') (calls s)"

text \<open>
  A value of state \<open>s\<close>: \<^verbatim>\<open>None\<close>, or a reference to an object that exists in \<open>s\<close>.
  Every value a Python program holds is one.
\<close>

definition is_value :: "state \<Rightarrow> ref or_none \<Rightarrow> bool" where
  "is_value s v = (case v of PyNone \<Rightarrow> True | Val r \<Rightarrow> r < length (heap s))"

section \<open>Resolution order, abstract methods and dispatch\<close>

lemma mro_eqs [simp]:
  "mro GUIToolkitFactory = [GUIToolkitFactory]"
  "mro WindowsGUIToolkitFactory = [WindowsGUIToolkitFactory, GUIToolkitFactory]"
  "mro MacOSGUIToolkitFactory = [MacOSGUIToolkitFactory, GUIToolkitFactory]"
  "mro Button = [Button]"
  "mro WindowsButton = [WindowsButton, Button]"
  "mro MacOSButton = [MacOSButton, Button]"
  "mro Checkbox = [Checkbox]"
  "mro WindowsCheckbox = [WindowsCheckbox, Checkbox]"
  "mro MacOSCheckbox = [MacOSCheckbox, Checkbox]"
  by (simp_all add: mro.simps)

lemma abstractmethods_eqs [simp]:
  "abstractmethods GUIToolkitFactory = [''create_button'', ''create_checkbox'']"
  "abstractmethods WindowsGUIToolkitFactory = []"
  "abstractmethods MacOSGUIToolkitFactory = []"
  "abstractmethods Button = [''click'']"
  "abstractmethods WindowsButton = []"
  "abstractmethods MacOSButton = []"
  "abstractmethods Checkbox = [''check'', ''toggle_with_button'']"
  "abstractmethods WindowsCheckbox = []"
  "abstractmethods MacOSCheckbox = []"
  by (simp_all add: abstractmethods.simps)

text \<open>
  The table of abstract flags and the tables of method definitions name the same
  methods for every class.
\<close>

lemma namespace_attr:
  "(map_of (namespace C) ''click'' = None) = (click_attr C = None)"
  "(map_of (namespace C) ''check'' = None) = (check_attr C = None)"
  "(map_of (namespace C) ''toggle_with_button'' = None) = (toggle_with_button_attr C = None)"
  "(map_of (namespace C) ''create_button'' = None) = (create_button_attr C = None)"
  "(map_of (namespace C) ''create_checkbox'' = None) = (create_checkbox_attr C = None)"
  by (cases C; simp)+

lemma class_of_update [simp]:
  "class_of (s\<lparr>calls := cs\<rparr>) r = class_of s r"
  "class_of (s\<lparr>stdout := out\<rparr>) r = class_of s r"
  by (simp_all add: class_of_def)

lemma click_button:
  "class_of s b = Some (button_class V) \<Longrightarrow>
   click (Val b) s =
     (Inr (Val (''You have clicked a '' @ variant_name V @ '' button.'')),
      s\<lparr>calls := calls s @ [Call ''click'' [Val b]]\<rparr>)"
  by (cases V)
     (simp_all add: click_def getattr_def py_bind_def called_def py_return_def
        WindowsButton_click_def MacOSButton_click_def)

lemma check_checkbox:
  "class_of s c = Some (checkbox_class V) \<Longrightarrow>
   check (Val c) s =
     (Inr (Val (variant_name V @ '' checkbox is checked.'')),
      s\<lparr>calls := calls s @ [Call ''check'' [Val c]]\<rparr>)"
  by (cases V)
     (simp_all add: check_def getattr_def py_bind_def called_def py_return_def
        WindowsCheckbox_check_def MacOSCheckbox_check_def)

lemma toggle_checkbox:
  "class_of s c = Some (checkbox_class V) \<Longrightarrow>
   toggle_with_button (Val c) b s =
     py_bind (click b) (\<lambda>result.
       py_return (Val (variant_name V @ '' checkbox toggled with ('' @ format_value result @ '')'')))
       (s\<lparr>calls := calls s @ [Call ''toggle_with_button'' [Val c, b]]\<rparr>)"
  by (cases V)
     (simp_all add: toggle_with_button_def getattr_def py_bind_def called_def py_return_def
        WindowsCheckbox_toggle_with_button_def MacOSCheckbox_toggle_with_button_def)

lemma toggle_checkbox_button:
  "class_of s c = Some (checkbox_class V) \<Longrightarrow> class_of s b = Some (button_class W) \<Longrightarrow>
   toggle_with_button (Val c) (Val b) s =
     (Inr (Val (variant_name V @ '' checkbox toggled with (You have clicked a '' @
         variant_name W @ '' button.)'')),
      s\<lparr>calls := calls s @ [Call ''toggle_with_button'' [Val c, Val b], Call ''click'' [Val b]]\<rparr>)"
  by (simp add: toggle_checkbox py_bind_def click_button py_return_def)

lemma create_button_factory:
  "class_of s f = Some (factory_class V) \<Longrightarrow>
   create_button (Val f) s =
     (Inr (Val (length (heap s))),
      s\<lparr>heap := heap s @ [button_class V],
        calls := calls s @ [Call ''create_button'' [Val f]]\<rparr>)"
  by (cases V)
     (simp_all add: create_button_def getattr_def py_bind_def called_def py_return_def
        instantiate_def WindowsGUIToolkitFactory_create_button_def
        MacOSGUIToolkitFactory_create_button_def)

lemma create_checkbox_factory:
  "class_of s f = Some (factory_class V) \<Longrightarrow>
   create_checkbox (Val f) s =
     (Inr (Val (length (heap s))),
      s\<lparr>heap := heap s @ [checkbox_class V],
        calls := calls s @ [Call ''create_checkbox'' [Val f]]\<rparr>)"
  by (cases V)
     (simp_all add: create_checkbox_def getattr_def py_bind_def called_def py_return_def
        instantiate_def WindowsGUIToolkitFactory_create_checkbox_def
        MacOSGUIToolkitFactory_create_checkbox_def)

lemma client_code_factory:
  "class_of s f = Some (factory_class V) \<Longrightarrow>
   client_code (Val f) s =
     (Inr (),
      s\<lparr>heap := heap s @ [button_class V, checkbox_class V],
        stdout := stdout s @ variant_name V @ '' checkbox is checked.'' @ [newline] @
          variant_name V @ '' checkbox toggled with (You have clicked a '' @ variant_name V @
          '' button.)'' @ [newline],
        calls := calls s @
          [Call ''client_code'' [Val f],
           Call ''create_button'' [Val f],
           Call ''create_checkbox'' [Val f],
           Call ''check'' [Val (Suc (length (heap s)))],
           Call ''toggle_with_button'' [Val (Suc (length (heap s))), Val (length (heap s))],
           Call ''click'' [Val (length (heap s))]]\<rparr>)"
proof -
  assume f: "class_of s f = Some (factory_class V)"
  let ?b = "length (heap s)"
  define s1 where "s1 = s\<lparr>calls := calls s @ [Call ''client_code'' [Val f]]\<rparr>"
  define s2 where "s2 = s1\<lparr>heap := heap s1 @ [button_class V],
    calls := calls s1 @ [Call ''create_button'' [Val f]]\<rparr>"
  define s3 where "s3 = s2\<lparr>heap := heap s2 @ [checkbox_class V],
    calls := calls s2 @ [Call ''create_checkbox'' [Val f]]\<rparr>"
  have f1: "class_of s1 f = Some (factory_class V)"
    using f by (simp add: s1_def)
  have f2: "class_of s2 f = Some (factory_class V)"
    using f1 by (simp add: s2_def class_of_def nth_append split: if_splits)
  have b3: "class_of s3 ?b = Some (button_class V)"
    by (simp add: s3_def s2_def s1_def class_of_def nth_append)
  have c3: "class_of s3 (Suc ?b) = Some (checkbox_class V)"
    by (simp add: s3_def s2_def s1_def class_of_def nth_append)
  have h1: "create_button (Val f) s1 = (Inr (Val ?b), s2)"
    using create_button_factory [OF f1] by (simp add: s2_def s1_def)
  have h2: "create_checkbox (Val f) s2 = (Inr (Val (Suc ?b)), s3)"
    using create_checkbox_factory [OF f2] by (simp add: s3_def s2_def s1_def)
  show ?thesis
    unfolding client_code_def
    apply (simp add: py_bind_def called_def s1_def [symmetric] h1 h2)
    apply (simp add: check_checkbox [OF c3] print_def py_bind_def)
    apply (subst toggle_checkbox_button [where V = V and W = V])
      apply (simp_all add: b3 c3)
    apply (simp add: s3_def s2_def s1_def print_def)
    done
qed

section \<open>The client routine\<close>

lemma printed_client_code:
  "class_of s f = Some (factory_class V) \<Longrightarrow>
   printed (client_code (Val f)) s =
     variant_name V @ '' checkbox is checked.'' @ [newline] @
     variant_name V @ '' checkbox toggled with (You have clicked a '' @ variant_name V @
     '' button.)'' @ [newline]"
  by (simp add: printed_def client_code_factory)

text \<open>
  Claim C1. For a factory of variant \<open>V\<close>, the client routine returns normally and
  adds exactly two lines to standard output: first \<open>V checkbox is checked.\<close> and then
  \<open>V checkbox toggled with (You have clicked a V button.)\<close>, with the literal texts
  of the claim for Windows and for MacOS.
\<close>

theorem client_code_prints_two_lines:
  assumes "class_of s f = Some (factory_class V)"
  shows "fst (client_code (Val f) s) = Inr () \<and>
    stdout (snd (client_code (Val f) s)) = stdout s @ printed (client_code (Val f)) s \<and>
    lines_of (printed (client_code (Val f)) s) =
      [variant_name V @ '' checkbox is checked.'',
       variant_name V @ '' checkbox toggled with (You have clicked a '' @ variant_name V @
         '' button.)''] \<and>
    lines_of (printed (client_code (Val f)) s) =
      (case V of
         Windows \<Rightarrow>
           [''Windows checkbox is checked.'',
            ''Windows checkbox toggled with (You have clicked a Windows button.)'']
       | MacOS \<Rightarrow>
           [''MacOS checkbox is checked.'',
            ''MacOS checkbox toggled with (You have clicked a MacOS button.)''])"
proof -
  have "lines_of (printed (client_code (Val f)) s) =
      (case V of
         Windows \<Rightarrow>
           [''Windows checkbox is checked.'',
            ''Windows checkbox toggled with (You have clicked a Windows button.)'']
       | MacOS \<Rightarrow>
           [''MacOS checkbox is checked.'',
            ''MacOS checkbox toggled with (You have clicked a MacOS button.)''])"
    unfolding printed_client_code [OF assms]
    by (cases V) (simp_all add: lines_of_def newline_def)
  moreover have "fst (client_code (Val f) s) = Inr ()"
    by (simp add: client_code_factory [OF assms])
  moreover have "stdout (snd (client_code (Val f) s)) = stdout s @ printed (client_code (Val f)) s"
    by (simp add: printed_def client_code_factory [OF assms])
  ultimately show ?thesis
    by (cases V) simp_all
qed

theorem client_code_prints_two_lines_witness:
  "class_of (snd (instantiate WindowsGUIToolkitFactory init_state)) 0 =
     Some (factory_class Windows) \<and>
   fst (client_code (Val 0) (snd (instantiate WindowsGUIToolkitFactory init_state))) = Inr () \<and>
   lines_of (printed (client_code (Val 0)) (snd (instantiate WindowsGUIToolkitFactory init_state))) =
     [''Windows checkbox is checked.'',
      ''Windows checkbox toggled with (You have clicked a Windows button.)''] \<and>
   class_of (snd (instantiate MacOSGUIToolkitFactory init_state)) 0 =
     Some (factory_class MacOS) \<and>
   fst (client_code (Val 0) (snd (instantiate MacOSGUIToolkitFactory init_state))) = Inr () \<and>
   lines_of (printed (client_code (Val 0)) (snd (instantiate MacOSGUIToolkitFactory init_state))) =
     [''MacOS checkbox is checked.'',
      ''MacOS checkbox toggled with (You have clicked a MacOS button.)'']"
proof -
  have w: "class_of (snd (instantiate WindowsGUIToolkitFactory init_state)) 0 =
      Some (factory_class Windows)"
    by (simp add: instantiate_def init_state_def class_of_def)
  have m: "class_of (snd (instantiate MacOSGUIToolkitFactory init_state)) 0 =
      Some (factory_class MacOS)"
    by (simp add: instantiate_def init_state_def class_of_def)
  show ?thesis
    using w m client_code_prints_two_lines [OF w] client_code_prints_two_lines [OF m]
    by simp
qed

section \<open>Instances\<close>

lemma concrete_class_of:
  "concrete_heap s \<Longrightarrow> class_of s r = Some D \<Longrightarrow> abstractmethods D = []"
  by (auto simp: concrete_heap_def class_of_def list_all_length split: if_splits)

lemma button_instance:
  assumes "concrete_heap s" "isinstance s b Button"
  obtains r V where "b = Val r" "class_of s r = Some (button_class V)"
proof -
  from assms(2) obtain r D where b: "b = Val r" and D: "class_of s r = Some D"
    and m: "Button \<in> set (mro D)"
    by (auto simp: isinstance_def split: or_none.splits option.splits)
  from concrete_class_of [OF assms(1) D] m have "D = button_class Windows \<or> D = button_class MacOS"
    by (cases D) simp_all
  then have "\<exists>V. D = button_class V"
    by blast
  with b D that show thesis
    by blast
qed

lemma checkbox_instance:
  assumes "concrete_heap s" "isinstance s c Checkbox"
  obtains r V where "c = Val r" "class_of s r = Some (checkbox_class V)"
proof -
  from assms(2) obtain r D where c: "c = Val r" and D: "class_of s r = Some D"
    and m: "Checkbox \<in> set (mro D)"
    by (auto simp: isinstance_def split: or_none.splits option.splits)
  from concrete_class_of [OF assms(1) D] m
  have "D = checkbox_class Windows \<or> D = checkbox_class MacOS"
    by (cases D) simp_all
  then have "\<exists>V. D = checkbox_class V"
    by blast
  with c D that show thesis
    by blast
qed

lemma factory_instance:
  assumes "concrete_heap s" "isinstance s f GUIToolkitFactory"
  obtains r V where "f = Val r" "class_of s r = Some (factory_class V)"
proof -
  from assms(2) obtain r D where f: "f = Val r" and D: "class_of s r = Some D"
    and m: "GUIToolkitFactory \<in> set (mro D)"
    by (auto simp: isinstance_def split: or_none.splits option.splits)
  from concrete_class_of [OF assms(1) D] m
  have "D = factory_class Windows \<or> D = factory_class MacOS"
    by (cases D) simp_all
  then have "\<exists>V. D = factory_class V"
    by blast
  with f D that show thesis
    by blast
qed

section \<open>Output strings of the products\<close>

lemma sublist_variant_click:
  "sublist (variant_name V) (''You have clicked a '' @ variant_name V @ '' button.'')"
  by (rule sublist_appendI)

lemma sublist_button_click:
  "sublist ''button'' (''You have clicked a '' @ variant_name V @ '' button.'')"
proof -
  have "''You have clicked a '' @ variant_name V @ '' button.'' =
      (''You have clicked a '' @ variant_name V @ '' '') @ ''button'' @ ''.''"
    by simp
  then show ?thesis
    by (simp only: sublist_appendI)
qed

text \<open>
  Claim C5. For a factory of variant \<open>V\<close>, the click of the button it creates returns
  a string that contains the name of \<open>V\<close> (\<open>Windows\<close> or \<open>MacOS\<close>) and the word
  \<open>button\<close>.
\<close>

theorem click_names_variant:
  assumes "class_of s f = Some (factory_class V)"
  shows "\<exists>t. fst (py_bind (create_button (Val f)) click s) = Inr (Val t) \<and>
    sublist (variant_name V) t \<and> sublist ''button'' t"
proof -
  have "fst (py_bind (create_button (Val f)) click s) =
      Inr (Val (''You have clicked a '' @ variant_name V @ '' button.''))"
    by (simp add: py_bind_def create_button_factory [OF assms] click_button [where V = V]
        class_of_def)
  with sublist_variant_click [of V] sublist_button_click [of V] show ?thesis
    by blast
qed

theorem click_names_variant_witness:
  "class_of (snd (instantiate WindowsGUIToolkitFactory init_state)) 0 =
     Some (factory_class Windows) \<and>
   (\<exists>t. fst (py_bind (create_button (Val 0)) click
        (snd (instantiate WindowsGUIToolkitFactory init_state))) = Inr (Val t) \<and>
      sublist ''Windows'' t \<and> sublist ''button'' t)"
proof -
  have w: "class_of (snd (instantiate WindowsGUIToolkitFactory init_state)) 0 =
      Some (factory_class Windows)"
    by (simp add: instantiate_def init_state_def class_of_def)
  show ?thesis
    using w click_names_variant [OF w] by simp
qed

lemma sublist_variant_check:
  "sublist (variant_name V) (variant_name V @ '' checkbox is checked.'')"
  by (rule sublist_append_rightI)

lemma sublist_checked_check:
  "sublist ''checked'' (variant_name V @ '' checkbox is checked.'')"
proof -
  have "variant_name V @ '' checkbox is checked.'' =
      (variant_name V @ '' checkbox is '') @ ''checked'' @ ''.''"
    by simp
  then show ?thesis
    by (simp only: sublist_appendI)
qed

text \<open>
  Claim C6. For a factory of variant \<open>V\<close>, the check of the checkbox it creates returns
  a string that contains the name of \<open>V\<close> and the word \<open>checked\<close>.
\<close>

theorem check_names_variant:
  assumes "class_of s f = Some (factory_class V)"
  shows "\<exists>t. fst (py_bind (create_checkbox (Val f)) check s) = Inr (Val t) \<and>
    sublist (variant_name V) t \<and> sublist ''checked'' t"
proof -
  have "fst (py_bind (create_checkbox (Val f)) check s) =
      Inr (Val (variant_name V @ '' checkbox is checked.''))"
    by (simp add: py_bind_def create_checkbox_factory [OF assms] check_checkbox [where V = V]
        class_of_def)
  with sublist_variant_check [of V] sublist_checked_check [of V] show ?thesis
    by blast
qed

theorem check_names_variant_witness:
  "class_of (snd (instantiate MacOSGUIToolkitFactory init_state)) 0 =
     Some (factory_class MacOS) \<and>
   (\<exists>t. fst (py_bind (create_checkbox (Val 0)) check
        (snd (instantiate MacOSGUIToolkitFactory init_state))) = Inr (Val t) \<and>
      sublist ''MacOS'' t \<and> sublist ''checked'' t)"
proof -
  have m: "class_of (snd (instantiate MacOSGUIToolkitFactory init_state)) 0 =
      Some (factory_class MacOS)"
    by (simp add: instantiate_def init_state_def class_of_def)
  show ?thesis
    using m check_names_variant [OF m] by simp
qed

section \<open>Abstract classes\<close>

text \<open>
  Claim C9. Instantiating \<open>Button\<close>, \<open>Checkbox\<close> or \<open>GUIToolkitFactory\<close> itself
  raises \<^verbatim>\<open>TypeError\<close> at construction, naming the class and its unimplemented abstract
  methods, and creates no object: the state is unchanged.
\<close>

theorem abstract_instantiation_rejected:
  "instantiate Button s = (Inl (TypeError Button [''click'']), s) \<and>
   instantiate Checkbox s = (Inl (TypeError Checkbox [''check'', ''toggle_with_button'']), s) \<and>
   instantiate GUIToolkitFactory s =
     (Inl (TypeError GUIToolkitFactory [''create_button'', ''create_checkbox'']), s)"
  by (simp add: instantiate_def)

section \<open>Composition of checkbox and button\<close>

lemma toggle_composition_string:
  assumes f: "class_of s f = Some (factory_class V)"
    and b: "class_of s b = Some (button_class W)"
  shows "fst (py_bind (create_checkbox (Val f)) (\<lambda>c. toggle_with_button c (Val b)) s) =
    Inr (Val (variant_name V @ '' checkbox toggled with (You have clicked a '' @
      variant_name W @ '' button.)''))"
proof -
  let ?s = "s\<lparr>heap := heap s @ [checkbox_class V],
    calls := calls s @ [Call ''create_checkbox'' [Val f]]\<rparr>"
  have c: "class_of ?s (length (heap s)) = Some (checkbox_class V)"
    by (simp add: class_of_def)
  have b': "class_of ?s b = Some (button_class W)"
    using b by (simp add: class_of_def nth_append split: if_splits)
  show ?thesis
    by (simp add: py_bind_def create_checkbox_factory [OF f] toggle_checkbox_button [OF c b'])
qed







section \<open>Totality\<close>

lemma concrete_heap_alloc:
  "concrete_heap s \<Longrightarrow> abstractmethods C = [] \<Longrightarrow>
   concrete_heap (s\<lparr>heap := heap s @ [C], calls := cs\<rparr>)"
  by (simp add: concrete_heap_def)

text \<open>
  Claim C8. In a state whose objects are all of instantiable classes, every operation
  succeeds on conforming inputs: the click of a Button instance and the check of a
  Checkbox instance return a non-empty string, the toggle of a Checkbox instance with a
  Button instance returns a non-empty string, and the creation operations of a factory
  instance return a Button instance and a Checkbox instance, leaving a state of the same
  kind.
\<close>

theorem operations_total:
  assumes "concrete_heap s"
  shows
    "(isinstance s b Button \<longrightarrow> (\<exists>u. fst (click b s) = Inr (Val u) \<and> u \<noteq> [])) \<and>
     (isinstance s c Checkbox \<longrightarrow> (\<exists>u. fst (check c s) = Inr (Val u) \<and> u \<noteq> [])) \<and>
     (isinstance s c Checkbox \<and> isinstance s b Button \<longrightarrow>
        (\<exists>u. fst (toggle_with_button c b s) = Inr (Val u) \<and> u \<noteq> [])) \<and>
     (isinstance s f GUIToolkitFactory \<longrightarrow>
        (\<exists>p. fst (create_button f s) = Inr p \<and>
           isinstance (snd (create_button f s)) p Button \<and>
           concrete_heap (snd (create_button f s))) \<and>
        (\<exists>p. fst (create_checkbox f s) = Inr p \<and>
           isinstance (snd (create_checkbox f s)) p Checkbox \<and>
           concrete_heap (snd (create_checkbox f s))))"
proof (intro conjI impI)
  assume "isinstance s b Button"
  with assms obtain r W where "b = Val r" "class_of s r = Some (button_class W)"
    by (rule button_instance)
  then show "\<exists>u. fst (click b s) = Inr (Val u) \<and> u \<noteq> []"
    by (simp add: click_button)
next
  assume "isinstance s c Checkbox"
  with assms obtain r V where "c = Val r" "class_of s r = Some (checkbox_class V)"
    by (rule checkbox_instance)
  then show "\<exists>u. fst (check c s) = Inr (Val u) \<and> u \<noteq> []"
    by (simp add: check_checkbox)
next
  assume "isinstance s c Checkbox \<and> isinstance s b Button"
  with assms obtain r V q W where "c = Val r" "class_of s r = Some (checkbox_class V)"
    "b = Val q" "class_of s q = Some (button_class W)"
    by (metis checkbox_instance button_instance)
  then show "\<exists>u. fst (toggle_with_button c b s) = Inr (Val u) \<and> u \<noteq> []"
    by (simp add: toggle_checkbox_button)
next
  assume "isinstance s f GUIToolkitFactory"
  with assms obtain r V where f: "f = Val r" "class_of s r = Some (factory_class V)"
    by (rule factory_instance)
  have "isinstance (s\<lparr>heap := heap s @ [button_class V], calls := cs\<rparr>)
      (Val (length (heap s))) Button" for cs
    by (cases V) (simp_all add: isinstance_def class_of_def)
  moreover have "concrete_heap (s\<lparr>heap := heap s @ [button_class V], calls := cs\<rparr>)" for cs
    using assms by (cases V) (simp_all add: concrete_heap_alloc)
  ultimately show "\<exists>p. fst (create_button f s) = Inr p \<and>
      isinstance (snd (create_button f s)) p Button \<and> concrete_heap (snd (create_button f s))"
    using f by (simp add: create_button_factory)
next
  assume "isinstance s f GUIToolkitFactory"
  with assms obtain r V where f: "f = Val r" "class_of s r = Some (factory_class V)"
    by (rule factory_instance)
  have "isinstance (s\<lparr>heap := heap s @ [checkbox_class V], calls := cs\<rparr>)
      (Val (length (heap s))) Checkbox" for cs
    by (cases V) (simp_all add: isinstance_def class_of_def)
  moreover have "concrete_heap (s\<lparr>heap := heap s @ [checkbox_class V], calls := cs\<rparr>)" for cs
    using assms by (cases V) (simp_all add: concrete_heap_alloc)
  ultimately show "\<exists>p. fst (create_checkbox f s) = Inr p \<and>
      isinstance (snd (create_checkbox f s)) p Checkbox \<and>
      concrete_heap (snd (create_checkbox f s))"
    using f by (simp add: create_checkbox_factory)
qed

theorem operations_total_witness:
  "concrete_heap \<lparr>heap = [MacOSGUIToolkitFactory, WindowsButton, MacOSCheckbox],
     stdout = [], calls = []\<rparr> \<and>
   isinstance \<lparr>heap = [MacOSGUIToolkitFactory, WindowsButton, MacOSCheckbox],
     stdout = [], calls = []\<rparr> (Val 1) Button \<and>
   isinstance \<lparr>heap = [MacOSGUIToolkitFactory, WindowsButton, MacOSCheckbox],
     stdout = [], calls = []\<rparr> (Val 2) Checkbox \<and>
   isinstance \<lparr>heap = [MacOSGUIToolkitFactory, WindowsButton, MacOSCheckbox],
     stdout = [], calls = []\<rparr> (Val 0) GUIToolkitFactory \<and>
   (\<exists>u. fst (click (Val 1) \<lparr>heap = [MacOSGUIToolkitFactory, WindowsButton, MacOSCheckbox],
      stdout = [], calls = []\<rparr>) = Inr (Val u) \<and> u \<noteq> []) \<and>
   (\<exists>u. fst (check (Val 2) \<lparr>heap = [MacOSGUIToolkitFactory, WindowsButton, MacOSCheckbox],
      stdout = [], calls = []\<rparr>) = Inr (Val u) \<and> u \<noteq> []) \<and>
   (\<exists>u. fst (toggle_with_button (Val 2) (Val 1)
      \<lparr>heap = [MacOSGUIToolkitFactory, WindowsButton, MacOSCheckbox],
      stdout = [], calls = []\<rparr>) = Inr (Val u) \<and> u \<noteq> []) \<and>
   (\<exists>p. fst (create_button (Val 0) \<lparr>heap = [MacOSGUIToolkitFactory, WindowsButton, MacOSCheckbox],
      stdout = [], calls = []\<rparr>) = Inr p) \<and>
   (\<exists>p. fst (create_checkbox (Val 0)
      \<lparr>heap = [MacOSGUIToolkitFactory, WindowsButton, MacOSCheckbox],
      stdout = [], calls = []\<rparr>) = Inr p)"
proof -
  let ?s = "\<lparr>heap = [MacOSGUIToolkitFactory, WindowsButton, MacOSCheckbox],
     stdout = [], calls = []\<rparr>"
  have h: "concrete_heap ?s"
    by (simp add: concrete_heap_def)
  have b: "isinstance ?s (Val 1) Button"
    by (simp add: isinstance_def class_of_def)
  have c: "isinstance ?s (Val 2) Checkbox"
    by (simp add: isinstance_def class_of_def)
  have f: "isinstance ?s (Val 0) GUIToolkitFactory"
    by (simp add: isinstance_def class_of_def)
  show ?thesis
    using h b c f operations_total [OF h, of "Val 1" "Val 2" "Val 0"] by blast
qed

section \<open>The entry point\<close>

lemma run_module_main:
  "run_module ''__main__'' init_state =
     (Inr (),
      \<lparr>heap = [WindowsGUIToolkitFactory, WindowsButton, WindowsCheckbox,
               MacOSGUIToolkitFactory, MacOSButton, MacOSCheckbox],
       stdout =
         ''Client: Testing client code with the Windows GUI toolkit:'' @ [newline] @
         ''Windows checkbox is checked.'' @ [newline] @
         ''Windows checkbox toggled with (You have clicked a Windows button.)'' @ [newline] @
         [newline] @ [newline] @
         ''Client: Testing the same client code with the MacOS GUI toolkit:'' @ [newline] @
         ''MacOS checkbox is checked.'' @ [newline] @
         ''MacOS checkbox toggled with (You have clicked a MacOS button.)'' @ [newline],
       calls =
         [Call ''client_code'' [Val 0],
          Call ''create_button'' [Val 0],
          Call ''create_checkbox'' [Val 0],
          Call ''check'' [Val 2],
          Call ''toggle_with_button'' [Val 2, Val 1],
          Call ''click'' [Val 1],
          Call ''client_code'' [Val 3],
          Call ''create_button'' [Val 3],
          Call ''create_checkbox'' [Val 3],
          Call ''check'' [Val 5],
          Call ''toggle_with_button'' [Val 5, Val 4],
          Call ''click'' [Val 4]]\<rparr>)"
  by (simp add: run_module_def main_def py_bind_def print_def instantiate_def init_state_def
      client_code_factory [where V = Windows, simplified]
      client_code_factory [where V = MacOS, simplified] class_of_def)

text \<open>
  Claim C4, as the code has it. Run as \<^verbatim>\<open>__main__\<close> from the initial state, the module
  returns normally and writes eight lines: the Windows narration, the two lines of the
  client routine for Windows, two empty lines (the call of \<^verbatim>\<open>print\<close> on a newline
  writes that newline and then the line terminator), the MacOS narration, and the two
  lines of the client routine for MacOS. The client routine is called exactly twice,
  first with a \<open>WindowsGUIToolkitFactory\<close> and then with a \<open>MacOSGUIToolkitFactory\<close>.
\<close>

theorem entry_point_two_blank_lines:
  "fst (run_module ''__main__'' init_state) = Inr () \<and>
   lines_of (stdout (snd (run_module ''__main__'' init_state))) =
     [''Client: Testing client code with the Windows GUI toolkit:'',
      ''Windows checkbox is checked.'',
      ''Windows checkbox toggled with (You have clicked a Windows button.)'',
      '''',
      '''',
      ''Client: Testing the same client code with the MacOS GUI toolkit:'',
      ''MacOS checkbox is checked.'',
      ''MacOS checkbox toggled with (You have clicked a MacOS button.)''] \<and>
   client_code_calls (snd (run_module ''__main__'' init_state)) =
     [Call ''client_code'' [Val 0], Call ''client_code'' [Val 3]] \<and>
   class_of (snd (run_module ''__main__'' init_state)) 0 = Some WindowsGUIToolkitFactory \<and>
   class_of (snd (run_module ''__main__'' init_state)) 3 = Some MacOSGUIToolkitFactory"
  by (simp add: run_module_main lines_of_def newline_def client_code_calls_def class_of_def)

text \<open>
  Claim C4 as stated fails: the output is not the one with a single empty line between
  the two runs, and the number of empty lines is not one.
\<close>

theorem entry_point_single_blank_line_counterexample:
  "lines_of (stdout (snd (run_module ''__main__'' init_state))) \<noteq>
     [''Client: Testing client code with the Windows GUI toolkit:'',
      ''Windows checkbox is checked.'',
      ''Windows checkbox toggled with (You have clicked a Windows button.)'',
      '''',
      ''Client: Testing the same client code with the MacOS GUI toolkit:'',
      ''MacOS checkbox is checked.'',
      ''MacOS checkbox toggled with (You have clicked a MacOS button.)''] \<and>
   length (filter (\<lambda>l. l = [])
     (lines_of (stdout (snd (run_module ''__main__'' init_state))))) \<noteq> 1"
  by (simp add: run_module_main lines_of_def newline_def)

section \<open>Family consistency\<close>

lemma product_family_factory:
  assumes "class_of s f = Some (factory_class V)"
  shows "product_family (create_button (Val f)) s = Some V"
    and "product_family (create_checkbox (Val f)) s = Some V"
  by (cases V; simp add: product_family_def create_button_factory [OF assms]
      create_checkbox_factory [OF assms] class_of_def)+

lemma product_strings_factory:
  assumes f: "class_of s f = Some (factory_class V)"
    and b: "class_of s b = Some (button_class W)"
  shows "product_strings (Val f) (Val b) s =
    [Inr (Val (''You have clicked a '' @ variant_name V @ '' button.'')),
     Inr (Val (variant_name V @ '' checkbox is checked.'')),
     Inr (Val (variant_name V @ '' checkbox toggled with (You have clicked a '' @
       variant_name W @ '' button.)''))]"
proof -
  have "fst (py_bind (create_button (Val f)) click s) =
      Inr (Val (''You have clicked a '' @ variant_name V @ '' button.''))"
    by (simp add: py_bind_def create_button_factory [OF f] click_button [where V = V]
        class_of_def)
  moreover have "fst (py_bind (create_checkbox (Val f)) check s) =
      Inr (Val (variant_name V @ '' checkbox is checked.''))"
    by (simp add: py_bind_def create_checkbox_factory [OF f] check_checkbox [where V = V]
        class_of_def)
  ultimately show ?thesis
    by (simp add: product_strings_def toggle_composition_string [OF f b])
qed

lemma product_strings_differ:
  assumes "W \<noteq> V"
    and "x \<in> set
      [Inr (Val (''You have clicked a '' @ variant_name V @ '' button.'')),
       Inr (Val (variant_name V @ '' checkbox is checked.'')),
       Inr (Val (variant_name V @ '' checkbox toggled with (You have clicked a '' @
         variant_name V' @ '' button.)''))]"
    and "y \<in> set
      [Inr (Val (''You have clicked a '' @ variant_name W @ '' button.'')),
       Inr (Val (variant_name W @ '' checkbox is checked.'')),
       Inr (Val (variant_name W @ '' checkbox toggled with (You have clicked a '' @
         variant_name W' @ '' button.)''))]"
  shows "\<exists>u v. x = (Inr (Val u) :: py_error + string or_none) \<and> y = Inr (Val v) \<and> u \<noteq> v"
  using assms by (cases V; cases W) auto

text \<open>
  Claim C2. The button and the checkbox that a factory of variant \<open>V\<close> creates are of
  variant \<open>V\<close>; and for a factory of a different variant \<open>W\<close>, every string that the
  products of the \<open>V\<close> factory return (click, check, and toggle with any Button
  instance) differs from every string that the products of the \<open>W\<close> factory return.
\<close>

theorem family_consistency:
  assumes "class_of s f = Some (factory_class V)"
  shows "product_family (create_button (Val f)) s = Some V \<and>
    product_family (create_checkbox (Val f)) s = Some V \<and>
    (\<forall>W t g b c.
       W \<noteq> V \<and> class_of t g = Some (factory_class W) \<and>
       concrete_heap s \<and> isinstance s b Button \<and>
       concrete_heap t \<and> isinstance t c Button \<longrightarrow>
       (\<forall>x \<in> set (product_strings (Val f) b s).
        \<forall>y \<in> set (product_strings (Val g) c t).
          \<exists>u v. x = Inr (Val u) \<and> y = Inr (Val v) \<and> u \<noteq> v))"
proof (intro conjI allI impI ballI)
  show "product_family (create_button (Val f)) s = Some V"
    and "product_family (create_checkbox (Val f)) s = Some V"
    by (rule product_family_factory [OF assms])+
next
  fix W t g b c x y
  assume h: "W \<noteq> V \<and> class_of t g = Some (factory_class W) \<and>
       concrete_heap s \<and> isinstance s b Button \<and>
       concrete_heap t \<and> isinstance t c Button"
    and x: "x \<in> set (product_strings (Val f) b s)"
    and y: "y \<in> set (product_strings (Val g) c t)"
  from h obtain r V' where b: "b = Val r" "class_of s r = Some (button_class V')"
    by (metis button_instance)
  from h obtain q W' where c: "c = Val q" "class_of t q = Some (button_class W')"
    by (metis button_instance)
  from h have g: "class_of t g = Some (factory_class W)" and ne: "W \<noteq> V"
    by simp_all
  show "\<exists>u v. x = Inr (Val u) \<and> y = Inr (Val v) \<and> u \<noteq> v"
    using x y
    unfolding b c product_strings_factory [OF assms b(2)] product_strings_factory [OF g c(2)]
    by (rule product_strings_differ [OF ne])
qed

theorem family_consistency_witness:
  "class_of \<lparr>heap = [WindowsGUIToolkitFactory, MacOSButton], stdout = [], calls = []\<rparr> 0 =
     Some (factory_class Windows) \<and>
   product_family (create_button (Val 0))
     \<lparr>heap = [WindowsGUIToolkitFactory, MacOSButton], stdout = [], calls = []\<rparr> = Some Windows \<and>
   product_family (create_checkbox (Val 0))
     \<lparr>heap = [WindowsGUIToolkitFactory, MacOSButton], stdout = [], calls = []\<rparr> = Some Windows \<and>
   MacOS \<noteq> Windows \<and>
   class_of \<lparr>heap = [WindowsButton, MacOSGUIToolkitFactory], stdout = [], calls = []\<rparr> 1 =
     Some (factory_class MacOS) \<and>
   concrete_heap \<lparr>heap = [WindowsGUIToolkitFactory, MacOSButton], stdout = [], calls = []\<rparr> \<and>
   isinstance \<lparr>heap = [WindowsGUIToolkitFactory, MacOSButton], stdout = [], calls = []\<rparr>
     (Val 1) Button \<and>
   concrete_heap \<lparr>heap = [WindowsButton, MacOSGUIToolkitFactory], stdout = [], calls = []\<rparr> \<and>
   isinstance \<lparr>heap = [WindowsButton, MacOSGUIToolkitFactory], stdout = [], calls = []\<rparr>
     (Val 0) Button \<and>
   (\<exists>u v.
      product_strings (Val 0) (Val 1)
        \<lparr>heap = [WindowsGUIToolkitFactory, MacOSButton], stdout = [], calls = []\<rparr> ! 2 =
        Inr (Val u) \<and>
      product_strings (Val 1) (Val 0)
        \<lparr>heap = [WindowsButton, MacOSGUIToolkitFactory], stdout = [], calls = []\<rparr> ! 2 =
        Inr (Val v) \<and>
      u \<noteq> v)"
proof -
  let ?s = "\<lparr>heap = [WindowsGUIToolkitFactory, MacOSButton], stdout = [], calls = []\<rparr>"
  let ?t = "\<lparr>heap = [WindowsButton, MacOSGUIToolkitFactory], stdout = [], calls = []\<rparr>"
  have f: "class_of ?s 0 = Some (factory_class Windows)"
    by (simp add: class_of_def)
  have g: "class_of ?t 1 = Some (factory_class MacOS)"
    by (simp add: class_of_def)
  have hs: "concrete_heap ?s" and ht: "concrete_heap ?t"
    by (simp_all add: concrete_heap_def)
  have b: "isinstance ?s (Val 1) Button" and c: "isinstance ?t (Val 0) Button"
    by (simp_all add: isinstance_def class_of_def)
  have x: "product_strings (Val 0) (Val 1) ?s ! 2 \<in> set (product_strings (Val 0) (Val 1) ?s)"
    and y: "product_strings (Val 1) (Val 0) ?t ! 2 \<in> set (product_strings (Val 1) (Val 0) ?t)"
    by (simp_all add: product_strings_def)
  note fc = family_consistency [OF f]
  from fc have "product_family (create_button (Val 0)) ?s = Some Windows"
    and "product_family (create_checkbox (Val 0)) ?s = Some Windows"
    by simp_all
  moreover from fc g hs ht b c x y have "\<exists>u v.
      product_strings (Val 0) (Val 1) ?s ! 2 = Inr (Val u) \<and>
      product_strings (Val 1) (Val 0) ?t ! 2 = Inr (Val v) \<and> u \<noteq> v"
    by (metis variant.distinct(1))
  ultimately show ?thesis
    using f g hs ht b c by simp
qed

section \<open>Repeated calls\<close>

lemma iterate_result:
  assumes res: "\<And>t. P t \<Longrightarrow> fst (m t) = x"
    and step: "\<And>t. P t \<Longrightarrow> P (snd (m t))"
    and init: "P s"
  shows "fst (m (after_calls n m s)) = fst (m s)"
proof -
  have "P (after_calls n m s)"
    by (induction n) (simp_all add: after_calls_def init step)
  then show ?thesis
    by (simp add: res init)
qed

lemma lookup_click_attr:
  "lookup click_attr (mro C) = Some m \<Longrightarrow>
   m = Button_click \<or> m = WindowsButton_click \<or> m = MacOSButton_click"
  by (cases C) auto

lemma lookup_check_attr:
  "lookup check_attr (mro C) = Some m \<Longrightarrow>
   m = Checkbox_check \<or> m = WindowsCheckbox_check \<or> m = MacOSCheckbox_check"
  by (cases C) auto

lemma lookup_toggle_with_button_attr:
  "lookup toggle_with_button_attr (mro C) = Some m \<Longrightarrow>
   m = Checkbox_toggle_with_button \<or> m = WindowsCheckbox_toggle_with_button \<or>
   m = MacOSCheckbox_toggle_with_button"
  by (cases C) auto

lemma click_heap: "heap (snd (click v s)) = heap s"
  and click_stdout: "stdout (snd (click v s)) = stdout s"
  by (auto simp: click_def getattr_def py_bind_def called_def py_return_def Button_click_def
      WindowsButton_click_def MacOSButton_click_def
      split: or_none.splits option.splits dest!: lookup_click_attr)

lemma check_heap: "heap (snd (check v s)) = heap s"
  and check_stdout: "stdout (snd (check v s)) = stdout s"
  by (auto simp: check_def getattr_def py_bind_def called_def py_return_def Checkbox_check_def
      WindowsCheckbox_check_def MacOSCheckbox_check_def
      split: or_none.splits option.splits dest!: lookup_check_attr)

lemma class_of_prefix:
  "prefix (heap s) (heap t) \<Longrightarrow> r < length (heap s) \<Longrightarrow> class_of t r = class_of s r"
  by (auto simp: prefix_def class_of_def nth_append)

lemma is_value_class_of:
  assumes "prefix (heap s) (heap t)" "is_value s v" "v = Val r"
  obtains C where "class_of s r = Some C" "class_of t r = Some C"
  using assms class_of_prefix [of s t r] by (simp add: is_value_def class_of_def)

lemma bind_return_fst:
  "fst (py_bind m (\<lambda>x. py_return (g x)) s) =
     (case fst (m s) of Inl e \<Rightarrow> Inl e | Inr x \<Rightarrow> Inr (g x))"
  by (simp add: py_bind_def py_return_def split: prod.splits sum.splits)

lemma bind_return_snd:
  "snd (py_bind m (\<lambda>x. py_return (g x)) s) = snd (m s)"
  by (simp add: py_bind_def py_return_def split: prod.splits sum.splits)

lemma click_ext:
  assumes "prefix (heap s) (heap t)" "is_value s v"
  shows "fst (click v t) = fst (click v s)"
proof (cases v)
  case PyNone
  then show ?thesis
    by (simp add: click_def getattr_def py_bind_def)
next
  case (Val r)
  with assms obtain C where "class_of s r = Some C" "class_of t r = Some C"
    by (rule is_value_class_of)
  with Val show ?thesis
    by (cases C)
      (simp_all add: click_def getattr_def py_bind_def called_def py_return_def Button_click_def
        WindowsButton_click_def MacOSButton_click_def)
qed

lemma toggle_with_button_heap: "heap (snd (toggle_with_button v b s)) = heap s"
  and toggle_with_button_stdout: "stdout (snd (toggle_with_button v b s)) = stdout s"
  by (auto simp: toggle_with_button_def getattr_def py_bind_def [of "getattr _ _ _"]
      py_bind_def [of "called _ _"] called_def
      Checkbox_toggle_with_button_def WindowsCheckbox_toggle_with_button_def
      MacOSCheckbox_toggle_with_button_def bind_return_snd click_heap click_stdout py_return_def
      split: or_none.splits option.splits dest!: lookup_toggle_with_button_attr)

lemma toggle_with_button_ext:
  assumes "prefix (heap s) (heap t)" "is_value s v" "is_value s b"
  shows "fst (toggle_with_button v b t) = fst (toggle_with_button v b s)"
proof (cases v)
  case PyNone
  then show ?thesis
    by (simp add: toggle_with_button_def getattr_def py_bind_def)
next
  case (Val r)
  with assms obtain C where C: "class_of s r = Some C" "class_of t r = Some C"
    by (metis is_value_class_of)
  have b: "fst (click b (t\<lparr>calls := cs\<rparr>)) = fst (click b s)"
    "fst (click b (s\<lparr>calls := cs\<rparr>)) = fst (click b s)" for cs
    using assms by (simp_all add: click_ext)
  show ?thesis
    using Val C
    by (cases C)
      (simp_all add: toggle_with_button_def getattr_def py_bind_def [of "getattr _ _ _"]
        py_bind_def [of "called _ _"] called_def
        Checkbox_toggle_with_button_def WindowsCheckbox_toggle_with_button_def
        MacOSCheckbox_toggle_with_button_def bind_return_fst b py_return_def)
qed

lemma check_ext:
  assumes "prefix (heap s) (heap t)" "is_value s v"
  shows "fst (check v t) = fst (check v s)"
proof (cases v)
  case PyNone
  then show ?thesis
    by (simp add: check_def getattr_def py_bind_def)
next
  case (Val r)
  with assms obtain C where "class_of s r = Some C" "class_of t r = Some C"
    by (rule is_value_class_of)
  with Val show ?thesis
    by (cases C)
      (simp_all add: check_def getattr_def py_bind_def called_def py_return_def
        Checkbox_check_def WindowsCheckbox_check_def MacOSCheckbox_check_def)
qed

lemma create_button_heap:
  "prefix (heap s) (heap (snd (create_button v s)))"
  and create_button_stdout: "stdout (snd (create_button v s)) = stdout s"
proof -
  have "prefix (heap s) (heap (snd (create_button v s))) \<and>
      stdout (snd (create_button v s)) = stdout s"
  proof (cases v)
    case PyNone
    then show ?thesis
      by (simp add: create_button_def getattr_def py_bind_def)
  next
    case (Val r)
    show ?thesis
    proof (cases "class_of s r")
      case None
      with Val show ?thesis
        by (simp add: create_button_def getattr_def py_bind_def)
    next
      case (Some C)
      with Val show ?thesis
        by (cases C)
          (simp_all add: create_button_def getattr_def py_bind_def called_def py_return_def
            instantiate_def GUIToolkitFactory_create_button_def
            WindowsGUIToolkitFactory_create_button_def MacOSGUIToolkitFactory_create_button_def)
    qed
  qed
  then show "prefix (heap s) (heap (snd (create_button v s)))"
    and "stdout (snd (create_button v s)) = stdout s"
    by simp_all
qed

lemma create_checkbox_heap:
  "prefix (heap s) (heap (snd (create_checkbox v s)))"
  and create_checkbox_stdout: "stdout (snd (create_checkbox v s)) = stdout s"
proof -
  have "prefix (heap s) (heap (snd (create_checkbox v s))) \<and>
      stdout (snd (create_checkbox v s)) = stdout s"
  proof (cases v)
    case PyNone
    then show ?thesis
      by (simp add: create_checkbox_def getattr_def py_bind_def)
  next
    case (Val r)
    show ?thesis
    proof (cases "class_of s r")
      case None
      with Val show ?thesis
        by (simp add: create_checkbox_def getattr_def py_bind_def)
    next
      case (Some C)
      with Val show ?thesis
        by (cases C)
          (simp_all add: create_checkbox_def getattr_def py_bind_def called_def py_return_def
            instantiate_def GUIToolkitFactory_create_checkbox_def
            WindowsGUIToolkitFactory_create_checkbox_def
            MacOSGUIToolkitFactory_create_checkbox_def)
    qed
  qed
  then show "prefix (heap s) (heap (snd (create_checkbox v s)))"
    and "stdout (snd (create_checkbox v s)) = stdout s"
    by simp_all
qed

lemma bind_heap:
  assumes "prefix (heap s) (heap (snd (m s)))"
    and "\<And>x s'. heap (snd (k x s')) = heap s'"
  shows "prefix (heap s) (heap (snd (py_bind m k s)))"
proof (cases "m s")
  case (Pair res s')
  with assms show ?thesis
    by (cases res) (simp_all add: py_bind_def)
qed

lemma create_button_click_ext:
  assumes "prefix (heap s) (heap t)" "is_value s v"
  shows "fst (py_bind (create_button v) click t) = fst (py_bind (create_button v) click s)"
proof (cases v)
  case PyNone
  then show ?thesis
    by (simp add: py_bind_def create_button_def getattr_def)
next
  case (Val r)
  with assms obtain C where C: "class_of s r = Some C" "class_of t r = Some C"
    by (rule is_value_class_of)
  have factory: "fst (py_bind (create_button (Val r)) click u) =
      Inr (Val (''You have clicked a '' @ variant_name V @ '' button.''))"
    if "class_of u r = Some (factory_class V)" for u V
    using that
    by (simp add: py_bind_def create_button_factory click_button [where V = V] class_of_def)
  have other: "fst (py_bind (create_button (Val r)) click u) =
      (if C = GUIToolkitFactory then Inl (AttributeError None ''click'')
       else Inl (AttributeError (Some C) ''create_button''))"
    if "class_of u r = Some C" "C \<noteq> factory_class Windows" "C \<noteq> factory_class MacOS" for u
    using that
    by (cases C)
      (simp_all add: py_bind_def create_button_def getattr_def called_def py_return_def
        GUIToolkitFactory_create_button_def click_def)
  show ?thesis
  proof (cases "C = factory_class Windows \<or> C = factory_class MacOS")
    case True
    then obtain V where "C = factory_class V"
      by blast
    with C Val show ?thesis
      by (simp add: factory)
  next
    case False
    with C Val show ?thesis
      by (simp add: other)
  qed
qed

lemma create_checkbox_check_ext:
  assumes "prefix (heap s) (heap t)" "is_value s v"
  shows "fst (py_bind (create_checkbox v) check t) = fst (py_bind (create_checkbox v) check s)"
proof (cases v)
  case PyNone
  then show ?thesis
    by (simp add: py_bind_def create_checkbox_def getattr_def)
next
  case (Val r)
  with assms obtain C where C: "class_of s r = Some C" "class_of t r = Some C"
    by (rule is_value_class_of)
  have factory: "fst (py_bind (create_checkbox (Val r)) check u) =
      Inr (Val (variant_name V @ '' checkbox is checked.''))"
    if "class_of u r = Some (factory_class V)" for u V
    using that
    by (simp add: py_bind_def create_checkbox_factory check_checkbox [where V = V] class_of_def)
  have other: "fst (py_bind (create_checkbox (Val r)) check u) =
      (if C = GUIToolkitFactory then Inl (AttributeError None ''check'')
       else Inl (AttributeError (Some C) ''create_checkbox''))"
    if "class_of u r = Some C" "C \<noteq> factory_class Windows" "C \<noteq> factory_class MacOS" for u
    using that
    by (cases C)
      (simp_all add: py_bind_def create_checkbox_def getattr_def called_def py_return_def
        GUIToolkitFactory_create_checkbox_def check_def)
  show ?thesis
  proof (cases "C = factory_class Windows \<or> C = factory_class MacOS")
    case True
    then obtain V where "C = factory_class V"
      by blast
    with C Val show ?thesis
      by (simp add: factory)
  next
    case False
    with C Val show ?thesis
      by (simp add: other)
  qed
qed

lemma create_checkbox_toggle_ext:
  assumes "prefix (heap s) (heap t)" "is_value s v" "is_value s b"
  shows "fst (py_bind (create_checkbox v) (\<lambda>c. toggle_with_button c b) t) =
    fst (py_bind (create_checkbox v) (\<lambda>c. toggle_with_button c b) s)"
proof (cases v)
  case PyNone
  then show ?thesis
    by (simp add: py_bind_def create_checkbox_def getattr_def)
next
  case (Val r)
  with assms obtain C where C: "class_of s r = Some C" "class_of t r = Some C"
    by (metis is_value_class_of)
  have factory: "fst (py_bind (create_checkbox (Val r)) (\<lambda>c. toggle_with_button c b) u) =
      (case fst (click b s) of
         Inl e \<Rightarrow> Inl e
       | Inr result \<Rightarrow>
           Inr (Val (variant_name V @ '' checkbox toggled with ('' @ format_value result @ '')'')))"
    if u: "class_of u r = Some (factory_class V)" "prefix (heap s) (heap u)" for u V
  proof -
    let ?u = "u\<lparr>heap := heap u @ [checkbox_class V],
      calls := calls u @ [Call ''create_checkbox'' [Val r]]\<rparr>"
    let ?w = "?u\<lparr>calls := calls ?u @ [Call ''toggle_with_button'' [Val (length (heap u)), b]]\<rparr>"
    have c: "class_of ?u (length (heap u)) = Some (checkbox_class V)"
      by (simp add: class_of_def)
    have "prefix (heap s) (heap ?w)"
      using u(2) by (simp add: prefix_def) auto
    then have "fst (click b ?w) = fst (click b s)"
      using assms(3) by (rule click_ext)
    then show ?thesis
      by (simp only: py_bind_def [of "create_checkbox (Val r)"] create_checkbox_factory [OF u(1)]
          prod.case sum.case toggle_checkbox [OF c] bind_return_fst)
  qed
  have other: "fst (py_bind (create_checkbox (Val r)) (\<lambda>c. toggle_with_button c b) u) =
      (if C = GUIToolkitFactory then Inl (AttributeError None ''toggle_with_button'')
       else Inl (AttributeError (Some C) ''create_checkbox''))"
    if "class_of u r = Some C" "C \<noteq> factory_class Windows" "C \<noteq> factory_class MacOS" for u
    using that
    by (cases C)
      (simp_all add: py_bind_def create_checkbox_def getattr_def called_def py_return_def
        GUIToolkitFactory_create_checkbox_def toggle_with_button_def)
  show ?thesis
  proof (cases "C = factory_class Windows \<or> C = factory_class MacOS")
    case True
    then obtain V where "C = factory_class V"
      by blast
    with C Val assms(1) show ?thesis
      by (simp add: factory)
  next
    case False
    with C Val show ?thesis
      by (simp add: other)
  qed
qed

lemma repeat_ext:
  assumes ext: "\<And>t. prefix (heap s) (heap t) \<Longrightarrow> fst (m t) = fst (m s)"
    and grow: "\<And>t. prefix (heap t) (heap (snd (m t)))"
  shows "fst (m (after_calls n m s)) = fst (m s)"
proof (rule iterate_result [where P = "\<lambda>t. prefix (heap s) (heap t)"])
  show "prefix (heap s) (heap t) \<Longrightarrow> fst (m t) = fst (m s)" for t
    by (rule ext)
  show "prefix (heap s) (heap t) \<Longrightarrow> prefix (heap s) (heap (snd (m t)))" for t
    using grow [of t] by (rule prefix_order.trans [rotated])
  show "prefix (heap s) (heap s)"
    by simp
qed

text \<open>
  Claim C7. For values \<open>f\<close>, \<open>c\<close> and \<open>b\<close> of a state, each operation run again
  after any number \<open>n\<close> of earlier runs returns what its first run returns: click,
  check, toggle with a fixed button, and the creation operations as observed through the
  output of the product. Click, check and toggle leave every object and standard output
  as they are; the creation operations only add a new object.
\<close>

theorem repeated_calls_identical:
  assumes "is_value s f" "is_value s c" "is_value s b"
  shows
    "fst (click b (after_calls n (click b) s)) = fst (click b s) \<and>
     fst (check c (after_calls n (check c) s)) = fst (check c s) \<and>
     fst (toggle_with_button c b (after_calls n (toggle_with_button c b) s)) =
       fst (toggle_with_button c b s) \<and>
     fst (py_bind (create_button f) click
         (after_calls n (py_bind (create_button f) click) s)) =
       fst (py_bind (create_button f) click s) \<and>
     fst (py_bind (create_checkbox f) check
         (after_calls n (py_bind (create_checkbox f) check) s)) =
       fst (py_bind (create_checkbox f) check s) \<and>
     fst (py_bind (create_checkbox f) (\<lambda>x. toggle_with_button x b)
         (after_calls n (py_bind (create_checkbox f) (\<lambda>x. toggle_with_button x b)) s)) =
       fst (py_bind (create_checkbox f) (\<lambda>x. toggle_with_button x b) s) \<and>
     heap (snd (click b s)) = heap s \<and> stdout (snd (click b s)) = stdout s \<and>
     heap (snd (check c s)) = heap s \<and> stdout (snd (check c s)) = stdout s \<and>
     heap (snd (toggle_with_button c b s)) = heap s \<and>
     stdout (snd (toggle_with_button c b s)) = stdout s \<and>
     prefix (heap s) (heap (snd (create_button f s))) \<and>
     stdout (snd (create_button f s)) = stdout s \<and>
     prefix (heap s) (heap (snd (create_checkbox f s))) \<and>
     stdout (snd (create_checkbox f s)) = stdout s"
proof -
  have "fst (click b (after_calls n (click b) s)) = fst (click b s)"
    using assms by (intro repeat_ext click_ext) (simp_all add: click_heap)
  moreover have "fst (check c (after_calls n (check c) s)) = fst (check c s)"
    using assms by (intro repeat_ext check_ext) (simp_all add: check_heap)
  moreover have "fst (toggle_with_button c b (after_calls n (toggle_with_button c b) s)) =
      fst (toggle_with_button c b s)"
    using assms by (intro repeat_ext toggle_with_button_ext) (simp_all add: toggle_with_button_heap)
  moreover have "fst (py_bind (create_button f) click
        (after_calls n (py_bind (create_button f) click) s)) =
      fst (py_bind (create_button f) click s)"
    using assms
    by (intro repeat_ext create_button_click_ext bind_heap create_button_heap click_heap)
  moreover have "fst (py_bind (create_checkbox f) check
        (after_calls n (py_bind (create_checkbox f) check) s)) =
      fst (py_bind (create_checkbox f) check s)"
    using assms
    by (intro repeat_ext create_checkbox_check_ext bind_heap create_checkbox_heap check_heap)
  moreover have "fst (py_bind (create_checkbox f) (\<lambda>x. toggle_with_button x b)
        (after_calls n (py_bind (create_checkbox f) (\<lambda>x. toggle_with_button x b)) s)) =
      fst (py_bind (create_checkbox f) (\<lambda>x. toggle_with_button x b) s)"
    using assms
    by (intro repeat_ext create_checkbox_toggle_ext bind_heap create_checkbox_heap
        toggle_with_button_heap)
  ultimately show ?thesis
    by (simp add: click_heap click_stdout check_heap check_stdout toggle_with_button_heap
        toggle_with_button_stdout create_button_heap create_button_stdout
        create_checkbox_heap create_checkbox_stdout)
qed

theorem repeated_calls_identical_witness:
  "is_value \<lparr>heap = [WindowsGUIToolkitFactory, WindowsCheckbox, MacOSButton],
     stdout = [], calls = []\<rparr> (Val 0) \<and>
   is_value \<lparr>heap = [WindowsGUIToolkitFactory, WindowsCheckbox, MacOSButton],
     stdout = [], calls = []\<rparr> (Val 1) \<and>
   is_value \<lparr>heap = [WindowsGUIToolkitFactory, WindowsCheckbox, MacOSButton],
     stdout = [], calls = []\<rparr> (Val 2) \<and>
   fst (toggle_with_button (Val 1) (Val 2)
     (after_calls 3 (toggle_with_button (Val 1) (Val 2))
        \<lparr>heap = [WindowsGUIToolkitFactory, WindowsCheckbox, MacOSButton],
          stdout = [], calls = []\<rparr>)) =
     Inr (Val ''Windows checkbox toggled with (You have clicked a MacOS button.)'') \<and>
   fst (py_bind (create_button (Val 0)) click
     (after_calls 3 (py_bind (create_button (Val 0)) click)
        \<lparr>heap = [WindowsGUIToolkitFactory, WindowsCheckbox, MacOSButton],
          stdout = [], calls = []\<rparr>)) =
     Inr (Val ''You have clicked a Windows button.'')"
proof -
  let ?s = "\<lparr>heap = [WindowsGUIToolkitFactory, WindowsCheckbox, MacOSButton],
     stdout = [], calls = []\<rparr>"
  have f: "is_value ?s (Val 0)" and c: "is_value ?s (Val 1)" and b: "is_value ?s (Val 2)"
    by (simp_all add: is_value_def)
  have t: "fst (toggle_with_button (Val 1) (Val 2) ?s) =
      Inr (Val ''Windows checkbox toggled with (You have clicked a MacOS button.)'')"
    using toggle_checkbox_button [of ?s 1 Windows 2 MacOS] by (simp add: class_of_def)
  have p: "fst (py_bind (create_button (Val 0)) click ?s) =
      Inr (Val ''You have clicked a Windows button.'')"
    by (simp add: py_bind_def create_button_factory [where V = Windows, simplified]
        click_button [where V = Windows, simplified] class_of_def)
  show ?thesis
    using f c b t p repeated_calls_identical [OF f c b, of 3] by simp
qed

section \<open>Objects of instantiable classes only\<close>

text \<open>
  The initial state has no object of an abstract class, and no operation of the module
  creates one: \<open>concrete_heap\<close> holds in every state a run can reach.
\<close>

lemma concrete_heap_init: "concrete_heap init_state"
  by (simp add: concrete_heap_def init_state_def)

lemma concrete_heap_cong:
  "heap t = heap s \<Longrightarrow> concrete_heap t = concrete_heap s"
  by (simp add: concrete_heap_def)

lemma concrete_heap_instantiate:
  "concrete_heap s \<Longrightarrow> concrete_heap (snd (instantiate C s))"
  by (simp add: instantiate_def concrete_heap_def)

lemma concrete_heap_bind:
  assumes "concrete_heap s"
    and "\<And>t. concrete_heap t \<Longrightarrow> concrete_heap (snd (m t))"
    and "\<And>x t. concrete_heap t \<Longrightarrow> concrete_heap (snd (k x t))"
  shows "concrete_heap (snd (py_bind m k s))"
proof (cases "m s")
  case (Pair res s')
  with assms(2) [OF assms(1)] have "concrete_heap s'"
    by simp
  with Pair assms(3) show ?thesis
    by (cases res) (simp_all add: py_bind_def)
qed

lemma concrete_heap_print: "concrete_heap s \<Longrightarrow> concrete_heap (snd (print x s))"
  by (simp add: print_def concrete_heap_def)

lemma concrete_heap_called: "concrete_heap s \<Longrightarrow> concrete_heap (snd (called n args s))"
  by (simp add: called_def concrete_heap_def)

lemma concrete_heap_click: "concrete_heap s \<Longrightarrow> concrete_heap (snd (click v s))"
  by (simp add: concrete_heap_def click_heap)

lemma concrete_heap_check: "concrete_heap s \<Longrightarrow> concrete_heap (snd (check v s))"
  by (simp add: concrete_heap_def check_heap)

lemma concrete_heap_toggle_with_button:
  "concrete_heap s \<Longrightarrow> concrete_heap (snd (toggle_with_button v b s))"
  by (simp add: concrete_heap_def toggle_with_button_heap)

lemma concrete_heap_create_button:
  assumes "concrete_heap s"
  shows "concrete_heap (snd (create_button v s))"
proof (cases v)
  case PyNone
  with assms show ?thesis
    by (simp add: create_button_def getattr_def py_bind_def)
next
  case (Val r)
  show ?thesis
  proof (cases "class_of s r")
    case None
    with Val assms show ?thesis
      by (simp add: create_button_def getattr_def py_bind_def)
  next
    case (Some C)
    with Val assms show ?thesis
      by (cases C)
        (simp_all add: create_button_def getattr_def py_bind_def called_def py_return_def
          instantiate_def GUIToolkitFactory_create_button_def concrete_heap_def
          WindowsGUIToolkitFactory_create_button_def MacOSGUIToolkitFactory_create_button_def)
  qed
qed

lemma concrete_heap_create_checkbox:
  assumes "concrete_heap s"
  shows "concrete_heap (snd (create_checkbox v s))"
proof (cases v)
  case PyNone
  with assms show ?thesis
    by (simp add: create_checkbox_def getattr_def py_bind_def)
next
  case (Val r)
  show ?thesis
  proof (cases "class_of s r")
    case None
    with Val assms show ?thesis
      by (simp add: create_checkbox_def getattr_def py_bind_def)
  next
    case (Some C)
    with Val assms show ?thesis
      by (cases C)
        (simp_all add: create_checkbox_def getattr_def py_bind_def called_def py_return_def
          instantiate_def GUIToolkitFactory_create_checkbox_def concrete_heap_def
          WindowsGUIToolkitFactory_create_checkbox_def
          MacOSGUIToolkitFactory_create_checkbox_def)
  qed
qed

lemma concrete_heap_client_code:
  "concrete_heap s \<Longrightarrow> concrete_heap (snd (client_code factory s))"
  unfolding client_code_def
  by (intro concrete_heap_bind concrete_heap_called concrete_heap_create_button
      concrete_heap_create_checkbox concrete_heap_check concrete_heap_print
      concrete_heap_toggle_with_button)

lemma concrete_heap_run_module:
  "concrete_heap s \<Longrightarrow> concrete_heap (snd (run_module name s))"
  unfolding run_module_def main_def
  by (auto intro!: concrete_heap_bind concrete_heap_print concrete_heap_instantiate
      concrete_heap_client_code simp: py_return_def)

end
